theory Spec2Isabelle
  imports Main "HOL-Library.Word"
begin

unbundle bit_operations_syntax

section \<open>Platform values\<close>

text \<open>
  The supervisor in \<^verbatim>\<open>process.cpp\<close> talks to the operating system through handles,
  32-bit status codes and narrow strings. A \<^verbatim>\<open>DWORD\<close> is a 32-bit word; a raw handle is a
  number, and an owning \<^verbatim>\<open>handle_ptr\<close> is either empty or holds one.
\<close>

type_synonym DWORD = "32 word"
type_synonym HANDLE = nat
type_synonym handle_ptr = "HANDLE option"

definition handle_get :: "handle_ptr \<Rightarrow> HANDLE" where
  "handle_get hp = (case hp of None \<Rightarrow> 0 | Some h \<Rightarrow> h)"

text \<open>Status codes of the platform headers, with their documented numeric values.\<close>

abbreviation WAIT_OBJECT_0 :: DWORD where "WAIT_OBJECT_0 \<equiv> 0"
abbreviation WAIT_TIMEOUT :: DWORD where "WAIT_TIMEOUT \<equiv> 258"
abbreviation WAIT_FAILED :: DWORD where "WAIT_FAILED \<equiv> 4294967295"
abbreviation ERROR_BROKEN_PIPE :: DWORD where "ERROR_BROKEN_PIPE \<equiv> 109"
abbreviation ERROR_IO_INCOMPLETE :: DWORD where "ERROR_IO_INCOMPLETE \<equiv> 996"
abbreviation ERROR_IO_PENDING :: DWORD where "ERROR_IO_PENDING \<equiv> 997"
abbreviation CTRL_BREAK_EVENT :: DWORD where "CTRL_BREAK_EVENT \<equiv> 1"

subsection \<open>Decimal rendering (\<^verbatim>\<open>std::to_string\<close> on unsigned values)\<close>

definition digit_char :: "nat \<Rightarrow> char" where
  "digit_char d = ''0123456789'' ! d"

function to_string :: "nat \<Rightarrow> string" where
  "to_string n = (if n < 10 then [digit_char n] else to_string (n div 10) @ [digit_char (n mod 10)])"
  by pat_completeness auto
termination
  by (relation "measure id") auto

declare to_string.simps [simp del]

section \<open>Logging collaborator and errors\<close>

text \<open>
  Modelled from the spec: \<^verbatim>\<open>context.h\<close> is not among the sources. The logger receives
  (reason, level, text) events; the only levels and reasons that \<^verbatim>\<open>process.cpp\<close> names are
  listed. \<^verbatim>\<open>bail_out\<close> raises the fatal error, which is a value here.
\<close>

datatype level = Lv_trace | Lv_debug | Lv_error
datatype reason = R_cmd | R_std_out | R_std_err

datatype error = Bailed string "DWORD option"

text \<open>
  Everything the code does to the outside world is appended to a trace: log lines and the
  system calls it makes explicitly. Calls that return data carry the answer they got. The
  releases that an owning handle performs when it goes out of scope are not traced.
\<close>

datatype event =
    Log reason level string
  | Sys_ReadFile HANDLE "DWORD + string"
  | Sys_WaitEvent HANDLE DWORD
  | Sys_GetOverlappedResult HANDLE "DWORD + string"
  | Sys_ResetEvent HANDLE
  | Sys_CreateNamedPipe string
  | Sys_CreateDirectories string
  | Sys_CreateProcess string string "string option"
  | Sys_CloseHandle HANDLE
  | Sys_WaitProcess HANDLE DWORD
  | Sys_TerminateProcess HANDLE DWORD
  | Sys_GenerateConsoleCtrlEvent DWORD DWORD

text \<open>
  The mutable world outside the object: the trace and the static counter that names pipes.
  The global switches of \<^verbatim>\<open>conf\<close> and the line splitter of \<^verbatim>\<open>utility.h\<close> are read-only
  collaborators whose code is not among the sources, so they are parameters.
\<close>

record world =
  trace :: "event list"
  pipe_id :: nat

record conf =
  dry :: bool
  log_trace :: bool
  for_each_line :: "string \<Rightarrow> string list"

definition emit :: "event \<Rightarrow> world \<Rightarrow> world" where
  "emit e w = w\<lparr>trace := trace w @ [e]\<rparr>"

definition cx_log :: "reason \<Rightarrow> level \<Rightarrow> string \<Rightarrow> world \<Rightarrow> world" where
  "cx_log r lv s w = emit (Log r lv s) w"

section \<open>\<^verbatim>\<open>async_pipe\<close>\<close>

record async_pipe =
  stdout_m :: handle_ptr
  event_m :: handle_ptr
  buffer_m :: string
  pending_m :: bool

definition buffer_size :: nat where "buffer_size = 50000"
definition pipe_timeout :: DWORD where "pipe_timeout = 500"

definition async_pipe_init :: async_pipe where
  "async_pipe_init = \<lparr>stdout_m = None, event_m = None, buffer_m = [], pending_m = False\<rparr>"

text \<open>
  What the operating system answers during one \<^verbatim>\<open>read()\<close>: the result of \<^verbatim>\<open>ReadFile\<close>
  (the bytes, or the last error when it returns FALSE), the result of the wait on the
  completion event with the last error behind a failed wait, and the result of
  \<^verbatim>\<open>GetOverlappedResult\<close>. Only the answers to calls that are made are consulted.
\<close>

record pipe_io =
  io_read_file :: "DWORD + string"
  io_wait :: DWORD
  io_wait_error :: DWORD
  io_overlapped :: "DWORD + string"

definition try_read :: "pipe_io \<Rightarrow> async_pipe \<Rightarrow> world \<Rightarrow> (error + string) \<times> async_pipe \<times> world" where
  "try_read io p w =
     (let w1 = emit (Sys_ReadFile (handle_get (stdout_m p)) (io_read_file io)) w in
      case io_read_file io of
        Inl e \<Rightarrow>
          if e = ERROR_IO_PENDING then (Inr [], p\<lparr>pending_m := True\<rparr>, w1)
          else if e = ERROR_BROKEN_PIPE then (Inr [], p, w1)
          else (Inl (Bailed ''async_pipe read failed'' (Some e)), p, w1)
      | Inr bytes \<Rightarrow>
          (Inr (take buffer_size bytes), p\<lparr>buffer_m := take buffer_size bytes\<rparr>, w1))"

definition check_pending :: "pipe_io \<Rightarrow> async_pipe \<Rightarrow> world \<Rightarrow> (error + string) \<times> async_pipe \<times> world" where
  "check_pending io p w =
     (let w1 = emit (Sys_WaitEvent (handle_get (event_m p)) pipe_timeout) w in
      if io_wait io = WAIT_FAILED
      then (Inl (Bailed ''WaitForSingleObject in async_pipe failed'' (Some (io_wait_error io))), p, w1)
      else
        let w2 = emit (Sys_GetOverlappedResult (handle_get (stdout_m p)) (io_overlapped io)) w1 in
        case io_overlapped io of
          Inl e \<Rightarrow>
            if e = ERROR_IO_INCOMPLETE then (Inr [], p, w2)
            else if e = WAIT_TIMEOUT then (Inr [], p, w2)
            else if e = ERROR_BROKEN_PIPE then (Inr [], p, w2)
            else (Inl (Bailed ''GetOverlappedResult failed in async_pipe'' (Some e)), p, w2)
        | Inr bytes \<Rightarrow>
            (Inr (take buffer_size bytes),
             p\<lparr>buffer_m := take buffer_size bytes, pending_m := False\<rparr>,
             emit (Sys_ResetEvent (handle_get (event_m p))) w2))"

definition read :: "pipe_io \<Rightarrow> async_pipe \<Rightarrow> world \<Rightarrow> (error + string) \<times> async_pipe \<times> world" where
  "read io p w = (if pending_m p then check_pending io p w else try_read io p w)"

text \<open>
  The answers to the calls of \<^verbatim>\<open>create()\<close>: each primitive either fails with a last error
  or yields a handle. \<^verbatim>\<open>create_pipe\<close> raises when \<^verbatim>\<open>CreateFileA\<close> fails, so the handle it
  returns is never the invalid one and the early return of \<^verbatim>\<open>create()\<close> is not reached.
\<close>

record create_io =
  io_named_pipe :: "DWORD + HANDLE"
  io_duplicate :: "DWORD + HANDLE"
  io_create_file :: "DWORD + HANDLE"
  io_create_event :: "DWORD + HANDLE"

definition backslash :: char where "backslash = CHR 0x5C"

definition pipe_name_prefix :: string where
  "pipe_name_prefix = [backslash, backslash] @ ''.'' @ [backslash] @ ''pipe'' @ [backslash] @ ''mob_pipe''"

definition create_pipe :: "create_io \<Rightarrow> async_pipe \<Rightarrow> world \<Rightarrow> (error + HANDLE) \<times> async_pipe \<times> world" where
  "create_pipe io p w =
     (let w1 = w\<lparr>pipe_id := Suc (pipe_id w)\<rparr>;
          pipe_name = pipe_name_prefix @ to_string (pipe_id w1);
          w2 = emit (Sys_CreateNamedPipe pipe_name) w1 in
      case io_named_pipe io of
        Inl e \<Rightarrow> (Inl (Bailed ''CreateNamedPipe failed'' (Some e)), p, w2)
      | Inr pipe_handle \<Rightarrow>
         (case io_duplicate io of
            Inl e \<Rightarrow> (Inl (Bailed ''DuplicateHandle for pipe'' (Some e)), p, w2)
          | Inr output_read \<Rightarrow>
             (let p1 = p\<lparr>stdout_m := Some output_read\<rparr> in
              case io_create_file io of
                Inl e \<Rightarrow> (Inl (Bailed ''CreateFileW for pipe failed'' (Some e)), p1, w2)
              | Inr output_write \<Rightarrow> (Inr output_write, p1, w2))))"

definition create :: "create_io \<Rightarrow> async_pipe \<Rightarrow> world \<Rightarrow> (error + handle_ptr) \<times> async_pipe \<times> world" where
  "create io p w =
     (case create_pipe io p w of
        (Inl e, p1, w1) \<Rightarrow> (Inl e, p1, w1)
      | (Inr out, p1, w1) \<Rightarrow>
         (case io_create_event io of
            Inl e \<Rightarrow> (Inl (Bailed ''CreateEvent failed'' (Some e)), p1, w1)
          | Inr ev \<Rightarrow> (Inr (Some out), p1\<lparr>event_m := Some ev\<rparr>, w1)))"


section \<open>\<^verbatim>\<open>process\<close>: the specification object\<close>

type_synonym flags_t = "32 word"
abbreviation noflags :: flags_t where "noflags \<equiv> 0"
abbreviation allow_failure :: flags_t where "allow_failure \<equiv> 1"
abbreviation terminate_on_interrupt :: flags_t where "terminate_on_interrupt \<equiv> 2"

type_synonym arg_flags = "32 word"
abbreviation noargflags :: arg_flags where "noargflags \<equiv> 0"
abbreviation verbose :: arg_flags where "verbose \<equiv> 1"
abbreviation quiet :: arg_flags where "quiet \<equiv> 2"
abbreviation nospace :: arg_flags where "nospace \<equiv> 4"
abbreviation quote :: arg_flags where "quote \<equiv> 8"

record filter =
  f_line :: string
  f_r :: reason
  f_lv :: level
  f_ignore :: bool

type_synonym filter_fun = "filter \<Rightarrow> filter"

record impl =
  impl_handle :: handle_ptr
  impl_interrupt :: bool
  impl_stdout_pipe :: async_pipe
  impl_stderr_pipe :: async_pipe

text \<open>
  The fields of \<^verbatim>\<open>process\<close>. The context pointer is the logger, which is the trace of the
  world; an empty \<^verbatim>\<open>std::function\<close> is \<open>None\<close>; the environment block is a list of
  bindings.
\<close>

record process =
  name_m :: string
  bin_m :: string
  cwd_m :: string
  flags_m :: flags_t
  stdout_level_m :: level
  stdout_filter_m :: "filter_fun option"
  stderr_level_m :: level
  stderr_filter_m :: "filter_fun option"
  env_m :: "(string \<times> string) list"
  raw_m :: string
  cmd_m :: string
  impl_m :: impl
  code_m :: DWORD

definition impl_init :: impl where
  "impl_init = \<lparr>impl_handle = None, impl_interrupt = False,
                impl_stdout_pipe = async_pipe_init, impl_stderr_pipe = async_pipe_init\<rparr>"

text \<open>The copy constructor of \<^verbatim>\<open>impl\<close> copies the interrupt flag and nothing else.\<close>

definition impl_copy :: "impl \<Rightarrow> impl" where
  "impl_copy i = impl_init\<lparr>impl_interrupt := impl_interrupt i\<rparr>"

definition process_init :: process where
  "process_init =
     \<lparr>name_m = [], bin_m = [], cwd_m = [], flags_m = noflags,
      stdout_level_m = Lv_trace, stdout_filter_m = None,
      stderr_level_m = Lv_error, stderr_filter_m = None,
      env_m = [], raw_m = [], cmd_m = [], impl_m = impl_init, code_m = 0\<rparr>"

definition process_copy :: "process \<Rightarrow> process" where
  "process_copy p = p\<lparr>impl_m := impl_copy (impl_m p)\<rparr>"

definition raw :: "string \<Rightarrow> process" where
  "raw cmd = process_init\<lparr>raw_m := cmd\<rparr>"

definition name :: "string \<Rightarrow> process \<Rightarrow> process" where
  "name n p = p\<lparr>name_m := n\<rparr>"

definition binary :: "string \<Rightarrow> process \<Rightarrow> process" where
  "binary b p = p\<lparr>bin_m := b\<rparr>"

definition cwd :: "string \<Rightarrow> process \<Rightarrow> process" where
  "cwd d p = p\<lparr>cwd_m := d\<rparr>"

definition stdout_level :: "level \<Rightarrow> process \<Rightarrow> process" where
  "stdout_level l p = p\<lparr>stdout_level_m := l\<rparr>"

definition stdout_filter :: "filter_fun option \<Rightarrow> process \<Rightarrow> process" where
  "stdout_filter f p = p\<lparr>stdout_filter_m := f\<rparr>"

definition stderr_level :: "level \<Rightarrow> process \<Rightarrow> process" where
  "stderr_level l p = p\<lparr>stderr_level_m := l\<rparr>"

definition stderr_filter :: "filter_fun option \<Rightarrow> process \<Rightarrow> process" where
  "stderr_filter f p = p\<lparr>stderr_filter_m := f\<rparr>"

definition flags :: "flags_t \<Rightarrow> process \<Rightarrow> process" where
  "flags f p = p\<lparr>flags_m := f\<rparr>"

definition env :: "(string \<times> string) list \<Rightarrow> process \<Rightarrow> process" where
  "env e p = p\<lparr>env_m := e\<rparr>"

definition dq :: char where "dq = CHR 0x22"

definition make_cmd :: "process \<Rightarrow> string" where
  "make_cmd p = (if raw_m p \<noteq> [] then raw_m p else [dq] @ bin_m p @ [dq] @ cmd_m p)"

definition make_name :: "process \<Rightarrow> string" where
  "make_name p = (if name_m p \<noteq> [] then name_m p else make_cmd p)"

definition pipe_into :: "process \<Rightarrow> process \<Rightarrow> process" where
  "pipe_into r p = r\<lparr>raw_m := make_cmd r @ '' | '' @ make_cmd p\<rparr>"

text \<open>
  The static \<^verbatim>\<open>pipe\<close>: the one-argument overload returns a copy; the variadic overload
  copies \<^verbatim>\<open>p1\<close> into \<^verbatim>\<open>r\<close>, pipes \<^verbatim>\<open>r\<close> into \<^verbatim>\<open>p2\<close>, calls itself on \<^verbatim>\<open>r\<close> and the
  remaining stages, and returns \<^verbatim>\<open>r\<close>. The recursive call takes \<^verbatim>\<open>r\<close> by const reference
  and its result is a temporary that is dropped. A copy never owns a child handle, so
  dropping the temporary has no effect of its own.
\<close>

fun pipe :: "process \<Rightarrow> process list \<Rightarrow> process" where
  "pipe p [] = process_copy p"
| "pipe p1 (p2 # ps) =
     (let r = process_copy p1;
          r = pipe_into r p2;
          dropped = pipe r ps
      in r)"

subsection \<open>Arguments\<close>

text \<open>The overloads of \<^verbatim>\<open>arg_to_string\<close>, selected by the static type of the value.\<close>

datatype arg_value = Chars string | Str string | Path string | Url string

fun arg_to_string :: "arg_value \<Rightarrow> bool \<Rightarrow> string" where
  "arg_to_string (Chars s) force_quote = (if force_quote then [dq] @ s @ [dq] else s)"
| "arg_to_string (Str s) force_quote = (if force_quote then [dq] @ s @ [dq] else s)"
| "arg_to_string (Path p) force_quote = [dq] @ p @ [dq]"
| "arg_to_string (Url u) force_quote = (if force_quote then [dq] @ u @ [dq] else u)"

definition add_arg :: "conf \<Rightarrow> string \<Rightarrow> string \<Rightarrow> arg_flags \<Rightarrow> process \<Rightarrow> process" where
  "add_arg c k v f p =
     (if f AND verbose \<noteq> 0 \<and> \<not> log_trace c then p
      else if f AND quiet \<noteq> 0 \<and> log_trace c then p
      else if k = [] \<and> v = [] then p
      else if k = [] then p\<lparr>cmd_m := cmd_m p @ '' '' @ v\<rparr>
      else if f AND nospace \<noteq> 0 \<or> last k = CHR ''='' then p\<lparr>cmd_m := cmd_m p @ '' '' @ k @ v\<rparr>
      else p\<lparr>cmd_m := cmd_m p @ '' '' @ k @ '' '' @ v\<rparr>)"

definition arg :: "conf \<Rightarrow> arg_value \<Rightarrow> arg_flags \<Rightarrow> process \<Rightarrow> process" where
  "arg c v f p = add_arg c [] (arg_to_string v (f AND quote \<noteq> 0)) f p"

definition arg2 :: "conf \<Rightarrow> string \<Rightarrow> arg_value \<Rightarrow> arg_flags \<Rightarrow> process \<Rightarrow> process" where
  "arg2 c n v f p = add_arg c n (arg_to_string v (f AND quote \<noteq> 0)) f p"

fun args2 :: "conf \<Rightarrow> (string \<times> arg_value) list \<Rightarrow> arg_flags \<Rightarrow> process \<Rightarrow> process" where
  "args2 c [] f p = p"
| "args2 c ((n, v) # xs) f p = args2 c xs f (arg2 c n v f p)"

fun args :: "conf \<Rightarrow> string list \<Rightarrow> arg_flags \<Rightarrow> process \<Rightarrow> process" where
  "args c [] f p = p"
| "args c (e # xs) f p = args c xs f (add_arg c e [] f p)"

section \<open>\<^verbatim>\<open>process\<close>: the supervisor\<close>

subsection \<open>\<^verbatim>\<open>run\<close>\<close>

text \<open>
  The answers \<^verbatim>\<open>do_run\<close> gets: those of the two \<^verbatim>\<open>create()\<close> calls, the value of
  \<^verbatim>\<open>COMSPEC\<close>, whether \<^verbatim>\<open>op::create_directories\<close> (not among the sources) raised, and the
  result of \<^verbatim>\<open>CreateProcessA\<close>: the last error, or the process handle, the process id
  and the thread handle.
\<close>

record spawn_io =
  sp_stdout :: create_io
  sp_stderr :: create_io
  sp_comspec :: string
  sp_create_directories :: "error option"
  sp_create_process :: "DWORD + (HANDLE \<times> DWORD \<times> HANDLE)"

definition do_run :: "spawn_io \<Rightarrow> string \<Rightarrow> process \<Rightarrow> world \<Rightarrow> error option \<times> process \<times> world" where
  "do_run io what p w =
     (case create (sp_stdout io) (impl_stdout_pipe (impl_m p)) w of
        (Inl e, op, w1) \<Rightarrow> (Some e, p\<lparr>impl_m := (impl_m p)\<lparr>impl_stdout_pipe := op\<rparr>\<rparr>, w1)
      | (Inr process_stdout, op, w1) \<Rightarrow>
         (let p1 = p\<lparr>impl_m := (impl_m p)\<lparr>impl_stdout_pipe := op\<rparr>\<rparr> in
          case create (sp_stderr io) (impl_stderr_pipe (impl_m p1)) w1 of
            (Inl e, ep, w2) \<Rightarrow> (Some e, p1\<lparr>impl_m := (impl_m p1)\<lparr>impl_stderr_pipe := ep\<rparr>\<rparr>, w2)
          | (Inr process_stderr, ep, w2) \<Rightarrow>
             (let p2 = p1\<lparr>impl_m := (impl_m p1)\<lparr>impl_stderr_pipe := ep\<rparr>\<rparr>;
                  cmd = sp_comspec io;
                  args = ''/C '' @ [dq] @ what @ [dq];
                  w3 = (if cwd_m p2 \<noteq> [] then emit (Sys_CreateDirectories (cwd_m p2)) w2 else w2)
              in
              case (if cwd_m p2 \<noteq> [] then sp_create_directories io else None) of
                Some e \<Rightarrow> (Some e, p2, w3)
              | None \<Rightarrow>
                 (let cwd_p = (if cwd_m p2 \<noteq> [] then Some (cwd_m p2) else None);
                      w4 = cx_log R_cmd Lv_trace ''creating process'' w3;
                      w5 = emit (Sys_CreateProcess cmd args cwd_p) w4
                  in
                  case sp_create_process io of
                    Inl e \<Rightarrow> (Some (Bailed (''failed to start '' @ [CHR 0x27] @ cmd @ [CHR 0x27]) (Some e)), p2, w5)
                  | Inr (hProcess, dwProcessId, hThread) \<Rightarrow>
                     (let w6 = cx_log R_cmd Lv_trace (''pid '' @ to_string (unat dwProcessId)) w5;
                          w7 = emit (Sys_CloseHandle hThread) w6
                      in (None, p2\<lparr>impl_m := (impl_m p2)\<lparr>impl_handle := Some hProcess\<rparr>\<rparr>, w7))))))"

definition run :: "conf \<Rightarrow> spawn_io \<Rightarrow> process \<Rightarrow> world \<Rightarrow> error option \<times> process \<times> world" where
  "run c io p w =
     (let w1 = (if cwd_m p \<noteq> [] then cx_log R_cmd Lv_debug (''> cd '' @ cwd_m p) w else w);
          what = make_cmd p;
          w2 = cx_log R_cmd Lv_debug (''> '' @ what) w1
      in if dry c then (None, p, w2) else do_run io what p w2)"

subsection \<open>\<^verbatim>\<open>interrupt\<close>, \<^verbatim>\<open>read_pipes\<close>, \<^verbatim>\<open>exit_code\<close>\<close>

definition interrupt :: "process \<Rightarrow> world \<Rightarrow> process \<times> world" where
  "interrupt p w =
     (p\<lparr>impl_m := (impl_m p)\<lparr>impl_interrupt := True\<rparr>\<rparr>, cx_log R_cmd Lv_trace ''will interrupt'' w)"

text \<open>
  The lambda that \<^verbatim>\<open>read_pipes\<close> hands to \<^verbatim>\<open>for_each_line\<close>: build the filter record, let
  the hook (when there is one) change reason, level and the ignore mark, and log the line
  unless it is ignored. The line itself is a const member and stays as read.
\<close>

definition log_line :: "reason \<Rightarrow> level \<Rightarrow> filter_fun option \<Rightarrow> world \<Rightarrow> string \<Rightarrow> world" where
  "log_line rs lvl hook w ln =
     (let f = \<lparr>f_line = ln, f_r = rs, f_lv = lvl, f_ignore = False\<rparr> in
      case hook of
        None \<Rightarrow> cx_log (f_r f) (f_lv f) ln w
      | Some g \<Rightarrow> (if f_ignore (g f) then w else cx_log (f_r (g f)) (f_lv (g f)) ln w))"

definition read_pipes :: "conf \<Rightarrow> pipe_io \<Rightarrow> pipe_io \<Rightarrow> process \<Rightarrow> world \<Rightarrow> error option \<times> process \<times> world" where
  "read_pipes c out_io err_io p w =
     (case read out_io (impl_stdout_pipe (impl_m p)) w of
        (Inl e, op, w1) \<Rightarrow> (Some e, p\<lparr>impl_m := (impl_m p)\<lparr>impl_stdout_pipe := op\<rparr>\<rparr>, w1)
      | (Inr s, op, w1) \<Rightarrow>
         (let p1 = p\<lparr>impl_m := (impl_m p)\<lparr>impl_stdout_pipe := op\<rparr>\<rparr>;
              w2 = foldl (log_line R_std_out (stdout_level_m p1) (stdout_filter_m p1)) w1 (for_each_line c s)
          in
          case read err_io (impl_stderr_pipe (impl_m p1)) w2 of
            (Inl e, ep, w3) \<Rightarrow> (Some e, p1\<lparr>impl_m := (impl_m p1)\<lparr>impl_stderr_pipe := ep\<rparr>\<rparr>, w3)
          | (Inr s', ep, w3) \<Rightarrow>
             (let p2 = p1\<lparr>impl_m := (impl_m p1)\<lparr>impl_stderr_pipe := ep\<rparr>\<rparr>;
                  w4 = foldl (log_line R_std_err (stderr_level_m p2) (stderr_filter_m p2)) w3 (for_each_line c s')
              in (None, p2, w4))))"

text \<open>\<^verbatim>\<open>static_cast<int>(code_)\<close>: the same 32 bits, read as a signed number.\<close>

definition exit_code :: "process \<Rightarrow> int" where
  "exit_code p = sint (code_m p)"

subsection \<open>\<^verbatim>\<open>join\<close>\<close>

text \<open>
  One iteration of the polling loop sees: whether another thread has called
  \<^verbatim>\<open>interrupt()\<close> since the previous iteration, the result of the 100 ms wait on the child
  with the last error behind it, the answers for the two pipe reads, the answer of
  \<^verbatim>\<open>GetExitCodeProcess\<close> (\<open>None\<close> when the call fails and leaves \<^verbatim>\<open>code_\<close> alone) and of
  \<^verbatim>\<open>GetProcessId\<close>. The loop has no bound of its own: a child that never exits keeps it
  polling. A run is therefore driven by a finite list of iterations, and a loop that has
  consumed all of them without leaving is \<open>Polling\<close>.
\<close>

record tick =
  t_interrupt :: bool
  t_wait :: DWORD
  t_last_error :: DWORD
  t_out :: pipe_io
  t_err :: pipe_io
  t_exit_code :: "DWORD option"
  t_pid :: DWORD

datatype join_result = Returned | Failed error | Polling

text \<open>The code after the loop: the closing trace line and the release of the handle.\<close>

definition after_loop :: "bool \<Rightarrow> process \<Rightarrow> world \<Rightarrow> join_result \<times> process \<times> world" where
  "after_loop interrupted p w =
     (Returned,
      p\<lparr>impl_m := (impl_m p)\<lparr>impl_handle := None\<rparr>\<rparr>,
      (if interrupted then cx_log R_cmd Lv_trace ''process interrupted and finished'' w else w))"

text \<open>The branch for a satisfied wait, from the final drain to the exit-code policy.\<close>

definition on_exit :: "conf \<Rightarrow> tick \<Rightarrow> bool \<Rightarrow> process \<Rightarrow> world \<Rightarrow> join_result \<times> process \<times> world" where
  "on_exit c t interrupted p w =
     (case read_pipes c (t_out t) (t_err t) p w of
        (Some e, p1, w1) \<Rightarrow> (Failed e, p1, w1)
      | (None, p1, w1) \<Rightarrow>
         (let p2 = (case t_exit_code t of None \<Rightarrow> p1 | Some x \<Rightarrow> p1\<lparr>code_m := x\<rparr>);
              w2 = cx_log R_cmd Lv_debug (''process completed, exit code '' @ to_string (unat (code_m p2))) w1
          in
          if impl_interrupt (impl_m p2) then after_loop interrupted p2 w2
          else if code_m p2 \<noteq> 0 then
            (if flags_m p2 AND allow_failure \<noteq> 0
             then after_loop interrupted p2
                    (cx_log R_cmd Lv_debug ''process failed but failure was allowed'' w2)
             else (Failed (Bailed (make_name p2 @ '' returned '' @ to_string (unat (code_m p2))) None),
                   p2\<lparr>impl_m := (impl_m p2)\<lparr>impl_handle := None\<rparr>\<rparr>, w2))
          else after_loop interrupted p2 w2))"

fun join_loop :: "conf \<Rightarrow> HANDLE \<Rightarrow> tick list \<Rightarrow> bool \<Rightarrow> process \<Rightarrow> world \<Rightarrow> join_result \<times> process \<times> world" where
  "join_loop c h [] interrupted p0 w0 = (Polling, p0, w0)"
| "join_loop c h (t # ts) interrupted p0 w0 =
     (let (p, w) = (if t_interrupt t then interrupt p0 w0 else (p0, w0));
          r = t_wait t;
          w = emit (Sys_WaitProcess h 100) w
      in
      if r = WAIT_OBJECT_0 then on_exit c t interrupted p w
      else if r = WAIT_TIMEOUT then
        (case read_pipes c (t_out t) (t_err t) p w of
           (Some e, p1, w1) \<Rightarrow> (Failed e, p1, w1)
         | (None, p1, w1) \<Rightarrow>
            if impl_interrupt (impl_m p1) \<and> \<not> interrupted then
              (if flags_m p1 AND terminate_on_interrupt \<noteq> 0 then
                 after_loop interrupted p1
                   (emit (Sys_TerminateProcess h 65535)
                      (cx_log R_cmd Lv_trace ''terminating process (flag is set)'' w1))
               else
                 (let pid = t_pid t in
                  if pid = 0 then
                    after_loop interrupted p1
                      (emit (Sys_TerminateProcess h 65535)
                         (cx_log R_cmd Lv_error ''process id is 0, terminating instead'' w1))
                  else
                    join_loop c h ts True p1
                      (emit (Sys_GenerateConsoleCtrlEvent CTRL_BREAK_EVENT pid)
                         (cx_log R_cmd Lv_error (''sending sigint to '' @ to_string (unat pid)) w1))))
            else join_loop c h ts interrupted p1 w1)
      else
        (Failed (Bailed ''failed to wait on process'' (Some (t_last_error t))),
         p\<lparr>impl_m := (impl_m p)\<lparr>impl_handle := None\<rparr>\<rparr>, w))"

definition join :: "conf \<Rightarrow> tick list \<Rightarrow> process \<Rightarrow> world \<Rightarrow> join_result \<times> process \<times> world" where
  "join c ts p w =
     (case impl_handle (impl_m p) of
        None \<Rightarrow> (Returned, p, w)
      | Some h \<Rightarrow> join_loop c h ts False p (cx_log R_cmd Lv_trace ''joining'' w))"

text \<open>The destructor: \<^verbatim>\<open>join()\<close> inside a try block whose handler catches everything.\<close>

definition process_dtor :: "conf \<Rightarrow> tick list \<Rightarrow> process \<Rightarrow> world \<Rightarrow> join_result \<times> process \<times> world" where
  "process_dtor c ts p w =
     (case join c ts p w of
        (Failed e, p1, w1) \<Rightarrow> (Returned, p1, w1)
      | (res, p1, w1) \<Rightarrow> (res, p1, w1))"

section \<open>Observations on a run\<close>

text \<open>
  What the properties below measure on a trace: the break signals sent to a process group,
  the forced terminations, and the read requests issued on a pipe.
\<close>

fun is_break :: "event \<Rightarrow> bool" where
  "is_break (Sys_GenerateConsoleCtrlEvent ev pid) = (ev = CTRL_BREAK_EVENT)"
| "is_break e = False"

fun is_kill :: "event \<Rightarrow> bool" where
  "is_kill (Sys_TerminateProcess h code) = True"
| "is_kill e = False"

definition breaks_sent :: "world \<Rightarrow> nat" where
  "breaks_sent w = length (filter is_break (trace w))"

definition kills_sent :: "world \<Rightarrow> nat" where
  "kills_sent w = length (filter is_kill (trace w))"

fun is_read_request :: "event \<Rightarrow> bool" where
  "is_read_request (Sys_ReadFile h res) = True"
| "is_read_request e = False"

definition read_requests :: "world \<Rightarrow> nat" where
  "read_requests w = length (filter is_read_request (trace w))"

text \<open>
  The asynchronous reads outstanding on a handle, counted from the trace: a \<^verbatim>\<open>ReadFile\<close>
  that answers \<^verbatim>\<open>ERROR_IO_PENDING\<close> leaves one more request with the system, and a
  \<^verbatim>\<open>GetOverlappedResult\<close> that succeeds collects one. A request that ended in an error is
  still counted, so the count never underestimates.
\<close>

fun outstanding_step :: "HANDLE \<Rightarrow> nat \<Rightarrow> event \<Rightarrow> nat" where
  "outstanding_step h n (Sys_ReadFile h' res) =
     (if h' = h \<and> res = Inl ERROR_IO_PENDING then Suc n else n)"
| "outstanding_step h n (Sys_GetOverlappedResult h' res) =
     (case res of Inl e \<Rightarrow> n | Inr bytes \<Rightarrow> if h' = h then n - 1 else n)"
| "outstanding_step h n e = n"

definition outstanding :: "HANDLE \<Rightarrow> world \<Rightarrow> nat" where
  "outstanding h w = foldl (outstanding_step h) 0 (trace w)"

text \<open>
  Answers under which a \<^verbatim>\<open>read()\<close> does not raise: none of the three calls reports an
  error outside the ones the code expects. An idle iteration of the polling loop is a
  timed-out wait with such answers and no \<^verbatim>\<open>interrupt()\<close> from another thread.
\<close>

definition no_fatal_io :: "pipe_io \<Rightarrow> bool" where
  "no_fatal_io io \<longleftrightarrow>
     io_wait io \<noteq> WAIT_FAILED
     \<and> (case io_read_file io of Inl e \<Rightarrow> e = ERROR_IO_PENDING \<or> e = ERROR_BROKEN_PIPE | Inr b \<Rightarrow> True)
     \<and> (case io_overlapped io of
          Inl e \<Rightarrow> e = ERROR_IO_INCOMPLETE \<or> e = WAIT_TIMEOUT \<or> e = ERROR_BROKEN_PIPE
        | Inr b \<Rightarrow> True)"

definition idle_tick :: "tick \<Rightarrow> bool" where
  "idle_tick t \<longleftrightarrow>
     t_wait t = WAIT_TIMEOUT \<and> \<not> t_interrupt t \<and> no_fatal_io (t_out t) \<and> no_fatal_io (t_err t)"

definition set_pipes :: "async_pipe \<Rightarrow> async_pipe \<Rightarrow> process \<Rightarrow> process" where
  "set_pipes a b p = p\<lparr>impl_m := (impl_m p)\<lparr>impl_stdout_pipe := a, impl_stderr_pipe := b\<rparr>\<rparr>"

section \<open>Sample inputs\<close>

text \<open>
  Concrete collaborators and answers for the closed examples. The splitter cuts at line
  feeds and skips empty lines; every general theorem holds for any splitter.
\<close>

fun sample_lines :: "string \<Rightarrow> string \<Rightarrow> string list" where
  "sample_lines acc [] = (if acc = [] then [] else [acc])"
| "sample_lines acc (ch # cs) =
     (if ch = CHR 0x0A then (if acc = [] then sample_lines [] cs else acc # sample_lines [] cs)
      else sample_lines (acc @ [ch]) cs)"

definition live_conf :: conf where
  "live_conf = \<lparr>dry = False, log_trace = False, for_each_line = sample_lines []\<rparr>"

definition dry_conf :: conf where
  "dry_conf = \<lparr>dry = True, log_trace = False, for_each_line = sample_lines []\<rparr>"

definition w_start :: world where
  "w_start = \<lparr>trace = [], pipe_id = 0\<rparr>"

definition io_nothing_yet :: pipe_io where
  "io_nothing_yet = \<lparr>io_read_file = Inl ERROR_IO_PENDING, io_wait = WAIT_TIMEOUT, io_wait_error = 0,
                      io_overlapped = Inl ERROR_IO_INCOMPLETE\<rparr>"

definition io_closed :: pipe_io where
  "io_closed = \<lparr>io_read_file = Inl ERROR_BROKEN_PIPE, io_wait = WAIT_OBJECT_0, io_wait_error = 0,
                 io_overlapped = Inl ERROR_BROKEN_PIPE\<rparr>"

definition tick_timeout :: tick where
  "tick_timeout = \<lparr>t_interrupt = False, t_wait = WAIT_TIMEOUT, t_last_error = 0,
                    t_out = io_nothing_yet, t_err = io_nothing_yet, t_exit_code = None, t_pid = 4242\<rparr>"

definition tick_exit :: "DWORD \<Rightarrow> tick" where
  "tick_exit code = \<lparr>t_interrupt = False, t_wait = WAIT_OBJECT_0, t_last_error = 0,
                      t_out = io_closed, t_err = io_closed, t_exit_code = Some code, t_pid = 4242\<rparr>"

definition tick_interrupted :: tick where
  "tick_interrupted = tick_timeout\<lparr>t_interrupt := True\<rparr>"

definition tick_exit_interrupted :: "DWORD \<Rightarrow> tick" where
  "tick_exit_interrupted code = (tick_exit code)\<lparr>t_interrupt := True\<rparr>"

definition io_denied :: pipe_io where
  "io_denied = \<lparr>io_read_file = Inl 5, io_wait = WAIT_OBJECT_0, io_wait_error = 0,
                 io_overlapped = Inl 5\<rparr>"

definition io_wait_failed :: pipe_io where
  "io_wait_failed = \<lparr>io_read_file = Inl ERROR_IO_PENDING, io_wait = WAIT_FAILED, io_wait_error = 6,
                      io_overlapped = Inl ERROR_IO_INCOMPLETE\<rparr>"

definition verbose_conf :: conf where
  "verbose_conf = \<lparr>dry = False, log_trace = True, for_each_line = sample_lines []\<rparr>"

definition spawn_ok :: spawn_io where
  "spawn_ok = \<lparr>sp_stdout = \<lparr>io_named_pipe = Inr 10, io_duplicate = Inr 11, io_create_file = Inr 12,
                               io_create_event = Inr 13\<rparr>,
                sp_stderr = \<lparr>io_named_pipe = Inr 20, io_duplicate = Inr 21, io_create_file = Inr 22,
                               io_create_event = Inr 23\<rparr>,
                sp_comspec = ''cmd.exe'', sp_create_directories = None,
                sp_create_process = Inr (30, 4242, 31)\<rparr>"

definition tool :: "flags_t \<Rightarrow> process" where
  "tool f = flags f (name ''tool'' (binary ''tool.exe'' process_init))"

definition started :: "flags_t \<Rightarrow> process" where
  "started f = fst (snd (run live_conf spawn_ok (tool f) w_start))"

definition sample_pipe :: async_pipe where
  "sample_pipe = impl_stdout_pipe (impl_m (started noflags))"

section \<open>Basic facts\<close>

lemmas pipe_defs = read_def try_read_def check_pending_def create_def create_pipe_def
  handle_get_def async_pipe_init_def
lemmas build_defs = process_init_def impl_init_def impl_copy_def process_copy_def raw_def name_def
  binary_def cwd_def flags_def env_def make_cmd_def make_name_def pipe_into_def
lemmas run_defs = run_def do_run_def interrupt_def read_pipes_def log_line_def
  after_loop_def on_exit_def join_def process_dtor_def exit_code_def
lemmas demo_defs = live_conf_def dry_conf_def w_start_def io_nothing_yet_def io_closed_def
  tick_timeout_def tick_exit_def spawn_ok_def tool_def started_def tick_interrupted_def
  io_denied_def io_wait_failed_def verbose_conf_def sample_pipe_def tick_exit_interrupted_def

lemma trace_emit [simp]: "trace (emit e w) = trace w @ [e]"
  by (simp add: emit_def)

lemma pipe_id_emit [simp]: "pipe_id (emit e w) = pipe_id w"
  by (simp add: emit_def)

lemma trace_cx_log [simp]: "trace (cx_log r lv s w) = trace w @ [Log r lv s]"
  by (simp add: cx_log_def)

lemma breaks_emit [simp]: "breaks_sent (emit e w) = breaks_sent w + (if is_break e then 1 else 0)"
  by (simp add: breaks_sent_def)

lemma kills_emit [simp]: "kills_sent (emit e w) = kills_sent w + (if is_kill e then 1 else 0)"
  by (simp add: kills_sent_def)

lemma breaks_cx_log [simp]: "breaks_sent (cx_log r lv s w) = breaks_sent w"
  by (simp add: breaks_sent_def)

lemma kills_cx_log [simp]: "kills_sent (cx_log r lv s w) = kills_sent w"
  by (simp add: kills_sent_def)

lemma set_pipes_fields [simp]:
  "flags_m (set_pipes a b p) = flags_m p"
  "code_m (set_pipes a b p) = code_m p"
  "name_m (set_pipes a b p) = name_m p"
  "make_name (set_pipes a b p) = make_name p"
  "make_cmd (set_pipes a b p) = make_cmd p"
  "impl_interrupt (impl_m (set_pipes a b p)) = impl_interrupt (impl_m p)"
  "impl_handle (impl_m (set_pipes a b p)) = impl_handle (impl_m p)"
  "stdout_level_m (set_pipes a b p) = stdout_level_m p"
  "stderr_level_m (set_pipes a b p) = stderr_level_m p"
  "stdout_filter_m (set_pipes a b p) = stdout_filter_m p"
  "stderr_filter_m (set_pipes a b p) = stderr_filter_m p"
  "impl_stdout_pipe (impl_m (set_pipes a b p)) = a"
  "impl_stderr_pipe (impl_m (set_pipes a b p)) = b"
  by (simp_all add: set_pipes_def make_name_def make_cmd_def)

lemma make_name_code [simp]: "make_name (p\<lparr>code_m := x\<rparr>) = make_name p"
  by (simp add: make_name_def make_cmd_def)

lemma set_pipes_twice [simp]: "set_pipes a b (set_pipes a' b' p) = set_pipes a b p"
  by (simp add: set_pipes_def)

lemma set_pipes_same: "set_pipes (impl_stdout_pipe (impl_m p)) (impl_stderr_pipe (impl_m p)) p = p"
  by (simp add: set_pipes_def)

lemma read_signals:
  "breaks_sent (snd (snd (read io q w))) = breaks_sent w \<and> kills_sent (snd (snd (read io q w))) = kills_sent w"
  by (simp add: read_def try_read_def check_pending_def Let_def split: sum.splits)

lemma read_no_fatal:
  assumes "no_fatal_io io"
  shows "\<exists>s. fst (read io q w) = Inr s"
  using assms
  by (auto simp: read_def try_read_def check_pending_def no_fatal_io_def Let_def split: sum.splits)

lemma log_line_signals:
  "breaks_sent (log_line r l hook w ln) = breaks_sent w \<and> kills_sent (log_line r l hook w ln) = kills_sent w"
  by (simp add: log_line_def Let_def split: option.splits)

lemma log_lines_signals:
  "breaks_sent (foldl (log_line r l hook) w lns) = breaks_sent w
   \<and> kills_sent (foldl (log_line r l hook) w lns) = kills_sent w"
  by (induction lns arbitrary: w) (simp_all add: log_line_signals)

lemma read_pipes_shape:
  "\<exists>res a b w'. read_pipes c oi ei p w = (res, set_pipes a b p, w')
      \<and> breaks_sent w' = breaks_sent w \<and> kills_sent w' = kills_sent w
      \<and> (no_fatal_io oi \<and> no_fatal_io ei \<longrightarrow> res = None)"
proof -
  obtain r1 q1 w1 where r1: "read oi (impl_stdout_pipe (impl_m p)) w = (r1, q1, w1)"
    by (metis prod_cases3)
  have s1: "breaks_sent w1 = breaks_sent w \<and> kills_sent w1 = kills_sent w"
    using read_signals [of oi "impl_stdout_pipe (impl_m p)" w] r1 by simp
  have p1: "p\<lparr>impl_m := (impl_m p)\<lparr>impl_stdout_pipe := q1\<rparr>\<rparr> = set_pipes q1 (impl_stderr_pipe (impl_m p)) p"
    by (simp add: set_pipes_def)
  show ?thesis
  proof (cases r1)
    case (Inl e)
    have "\<not> no_fatal_io oi"
      using read_no_fatal [of oi "impl_stdout_pipe (impl_m p)" w] r1 Inl by auto
    then show ?thesis
      using r1 Inl s1 p1 by (simp add: read_pipes_def) blast
  next
    case (Inr s)
    define w2 where "w2 = foldl (log_line R_std_out (stdout_level_m p) (stdout_filter_m p)) w1 (for_each_line c s)"
    have s2: "breaks_sent w2 = breaks_sent w \<and> kills_sent w2 = kills_sent w"
      using s1 by (simp add: w2_def log_lines_signals)
    obtain r2 q2 w3 where r2: "read ei (impl_stderr_pipe (impl_m p)) w2 = (r2, q2, w3)"
      by (metis prod_cases3)
    have s3: "breaks_sent w3 = breaks_sent w \<and> kills_sent w3 = kills_sent w"
      using read_signals [of ei "impl_stderr_pipe (impl_m p)" w2] r2 s2 by simp
    have p2: "p\<lparr>impl_m := (impl_m p)\<lparr>impl_stdout_pipe := q1, impl_stderr_pipe := q2\<rparr>\<rparr> = set_pipes q1 q2 p"
      by (simp add: set_pipes_def)
    show ?thesis
    proof (cases r2)
      case (Inl e)
      have "\<not> no_fatal_io ei"
        using read_no_fatal [of ei "impl_stderr_pipe (impl_m p)" w2] r2 Inl by auto
      then show ?thesis
        using r1 Inr r2 Inl s3 p2 by (simp add: read_pipes_def Let_def w2_def) blast
    next
      case (Inr s')
      then show ?thesis
        using r1 \<open>r1 = Inr s\<close> r2 s3 p2
        by (simp add: read_pipes_def Let_def w2_def log_lines_signals) blast
    qed
  qed
qed


lemma after_loop_signals [simp]:
  "breaks_sent (snd (snd (after_loop i p w))) = breaks_sent w"
  "kills_sent (snd (snd (after_loop i p w))) = kills_sent w"
  "fst (after_loop i p w) = Returned"
  "code_m (fst (snd (after_loop i p w))) = code_m p"
  by (simp_all add: after_loop_def)

lemma interrupt_signals [simp]:
  "breaks_sent (snd (interrupt p w)) = breaks_sent w"
  "kills_sent (snd (interrupt p w)) = kills_sent w"
  by (simp_all add: interrupt_def)

lemma on_exit_signals:
  "breaks_sent (snd (snd (on_exit c t i p w))) = breaks_sent w
   \<and> kills_sent (snd (snd (on_exit c t i p w))) = kills_sent w"
proof -
  obtain res a b w1 where rp: "read_pipes c (t_out t) (t_err t) p w = (res, set_pipes a b p, w1)"
    and s: "breaks_sent w1 = breaks_sent w" "kills_sent w1 = kills_sent w"
    using read_pipes_shape [of c "t_out t" "t_err t" p w] by blast
  show ?thesis
    using rp s by (cases res) (simp_all add: on_exit_def Let_def split: option.splits)
qed

lemma join_loop_idle_prefix:
  assumes "\<forall>x\<in>set pre. idle_tick x" and "\<not> impl_interrupt (impl_m p)"
  shows "\<exists>a b w'. join_loop c h (pre @ ts) i p w = join_loop c h ts i (set_pipes a b p) w'
            \<and> breaks_sent w' = breaks_sent w \<and> kills_sent w' = kills_sent w"
  using assms
proof (induction pre arbitrary: p w)
  case Nil
  show ?case
    using set_pipes_same [of p] by (metis append_Nil)
next
  case (Cons x pre)
  have x: "t_wait x = WAIT_TIMEOUT" "\<not> t_interrupt x" "no_fatal_io (t_out x)" "no_fatal_io (t_err x)"
    using Cons.prems(1) by (simp_all add: idle_tick_def)
  define w0 where "w0 = emit (Sys_WaitProcess h 100) w"
  obtain a b w1 where rp: "read_pipes c (t_out x) (t_err x) p w0 = (None, set_pipes a b p, w1)"
    and s: "breaks_sent w1 = breaks_sent w0" "kills_sent w1 = kills_sent w0"
    using read_pipes_shape [of c "t_out x" "t_err x" p w0] x by blast
  have step: "join_loop c h ((x # pre) @ ts) i p w = join_loop c h (pre @ ts) i (set_pipes a b p) w1"
    using x rp Cons.prems(2) by (simp add: w0_def)
  have "\<exists>a' b' w'. join_loop c h (pre @ ts) i (set_pipes a b p) w1
            = join_loop c h ts i (set_pipes a' b' (set_pipes a b p)) w'
          \<and> breaks_sent w' = breaks_sent w1 \<and> kills_sent w' = kills_sent w1"
    using Cons.IH [of "set_pipes a b p" w1] Cons.prems by simp
  then show ?case
    using step s by (simp add: w0_def)
qed

lemma join_loop_breaks:
  "breaks_sent (snd (snd (join_loop c h ts i p w))) \<le> breaks_sent w + (if i then 0 else 1)"
proof (induction ts arbitrary: i p w)
  case Nil
  show ?case by simp
next
  case (Cons t ts)
  obtain p0 w0 where pw: "(if t_interrupt t then interrupt p w else (p, w)) = (p0, w0)"
    by (metis surj_pair)
  have b0: "breaks_sent w0 = breaks_sent w"
    using pw by (auto simp: interrupt_def split: if_splits)
  define w1 where "w1 = emit (Sys_WaitProcess h 100) w0"
  have b1: "breaks_sent w1 = breaks_sent w"
    using b0 by (simp add: w1_def)
  obtain res a b w2 where rp: "read_pipes c (t_out t) (t_err t) p0 w1 = (res, set_pipes a b p0, w2)"
    and b2: "breaks_sent w2 = breaks_sent w1"
    using read_pipes_shape [of c "t_out t" "t_err t" p0 w1] by blast
  consider (exit) "t_wait t = WAIT_OBJECT_0" | (timeout) "t_wait t = WAIT_TIMEOUT" 
    | (failed) "t_wait t \<noteq> WAIT_OBJECT_0" "t_wait t \<noteq> WAIT_TIMEOUT"
    by blast
  then show ?case
  proof cases
    case exit
    have "join_loop c h (t # ts) i p w = on_exit c t i p0 w1"
      using pw exit by (simp add: w1_def)
    then show ?thesis
      using on_exit_signals [of c t i p0 w1] b1 by simp
  next
    case failed
    then show ?thesis
      using pw b0 by (simp add: Let_def)
  next
    case timeout
    show ?thesis
    proof (cases res)
      case (Some e)
      then show ?thesis
        using pw timeout rp b2 b1 by (simp add: w1_def)
    next
      case None
      show ?thesis
      proof (cases "impl_interrupt (impl_m p0) \<and> \<not> i")
        case False
        have "join_loop c h (t # ts) i p w = join_loop c h ts i (set_pipes a b p0) w2"
          using pw timeout rp None False by (auto simp: w1_def)
        then show ?thesis
          using Cons.IH [of i "set_pipes a b p0" w2] b2 b1 by simp
      next
        case True
        show ?thesis
        proof (cases "flags_m p0 AND terminate_on_interrupt \<noteq> 0 \<or> t_pid t = 0")
          case True
          then show ?thesis
            using pw timeout rp None \<open>impl_interrupt (impl_m p0) \<and> \<not> i\<close> b2 b1
            by (auto simp: w1_def Let_def)
        next
          case False
          define w3 where "w3 = emit (Sys_GenerateConsoleCtrlEvent CTRL_BREAK_EVENT (t_pid t))
                         (cx_log R_cmd Lv_error (''sending sigint to '' @ to_string (unat (t_pid t))) w2)"
          have "join_loop c h (t # ts) i p w = join_loop c h ts True (set_pipes a b p0) w3"
            using pw timeout rp None True False by (auto simp: w1_def w3_def Let_def)
          moreover have "breaks_sent w3 = breaks_sent w + 1"
            using b2 b1 by (simp add: w3_def)
          ultimately show ?thesis
            using Cons.IH [of True "set_pipes a b p0" w3] True by simp
        qed
      qed
    qed
  qed
qed

lemma started_handle: "impl_handle (impl_m (started f)) = Some 30"
  by (simp add: demo_defs run_defs build_defs pipe_defs Let_def)

lemma started_fields:
  "flags_m (started f) = f" "name_m (started f) = ''tool''" "\<not> impl_interrupt (impl_m (started f))"
  "code_m (started f) = 0"
  by (simp_all add: demo_defs run_defs build_defs pipe_defs Let_def)

lemma on_exit_policy:
  assumes "no_fatal_io (t_out t)" "no_fatal_io (t_err t)" "t_exit_code t = Some code"
      and "\<not> impl_interrupt (impl_m q)"
  shows "fst (on_exit c t i q w) =
           (if code = 0 \<or> flags_m q AND allow_failure \<noteq> 0 then Returned
            else Failed (Bailed (make_name q @ '' returned '' @ to_string (unat code)) None))"
    and "code_m (fst (snd (on_exit c t i q w))) = code"
    and "code \<noteq> 0 \<and> flags_m q AND allow_failure \<noteq> 0 \<Longrightarrow> \<not> i \<Longrightarrow>
         last (trace (snd (snd (on_exit c t i q w)))) = Log R_cmd Lv_debug ''process failed but failure was allowed''"
proof -
  obtain a b w1 where rp: "read_pipes c (t_out t) (t_err t) q w = (None, set_pipes a b q, w1)"
    using read_pipes_shape [of c "t_out t" "t_err t" q w] assms by blast
  show "fst (on_exit c t i q w) =
           (if code = 0 \<or> flags_m q AND allow_failure \<noteq> 0 then Returned
            else Failed (Bailed (make_name q @ '' returned '' @ to_string (unat code)) None))"
    using rp assms by (simp add: on_exit_def Let_def)
  show "code_m (fst (snd (on_exit c t i q w))) = code"
    using rp assms by (simp add: on_exit_def Let_def after_loop_def)
  show "code \<noteq> 0 \<and> flags_m q AND allow_failure \<noteq> 0 \<Longrightarrow> \<not> i \<Longrightarrow>
         last (trace (snd (snd (on_exit c t i q w)))) = Log R_cmd Lv_debug ''process failed but failure was allowed''"
    using rp assms by (simp add: on_exit_def Let_def after_loop_def)
qed

lemma on_exit_interrupted:
  assumes "no_fatal_io (t_out t)" "no_fatal_io (t_err t)" "impl_interrupt (impl_m q)"
  shows "fst (on_exit c t i q w) = Returned"
proof -
  obtain a b w1 where rp: "read_pipes c (t_out t) (t_err t) q w = (None, set_pipes a b q, w1)"
    using read_pipes_shape [of c "t_out t" "t_err t" q w] assms by blast
  show ?thesis
    using rp assms by (simp add: on_exit_def Let_def split: option.splits)
qed

lemma join_loop_code_unchanged:
  assumes "\<forall>t\<in>set ts. t_wait t \<noteq> WAIT_OBJECT_0"
  shows "code_m (fst (snd (join_loop c h ts i p w))) = code_m p"
  using assms
proof (induction ts arbitrary: i p w)
  case Nil
  show ?case by simp
next
  case (Cons t ts)
  obtain p0 w0 where pw: "(if t_interrupt t then interrupt p w else (p, w)) = (p0, w0)"
    by (metis surj_pair)
  have c0: "code_m p0 = code_m p"
    using pw by (auto simp: interrupt_def split: if_splits)
  define w1 where "w1 = emit (Sys_WaitProcess h 100) w0"
  obtain res a b w2 where rp: "read_pipes c (t_out t) (t_err t) p0 w1 = (res, set_pipes a b p0, w2)"
    using read_pipes_shape [of c "t_out t" "t_err t" p0 w1] by blast
  have nz: "t_wait t \<noteq> WAIT_OBJECT_0" and rest: "\<forall>t\<in>set ts. t_wait t \<noteq> WAIT_OBJECT_0"
    using Cons.prems by simp_all
  have ih: "\<And>i' w'. code_m (fst (snd (join_loop c h ts i' (set_pipes a b p0) w'))) = code_m p"
    using Cons.IH [OF rest] c0 by simp
  show ?case
  proof (cases "t_wait t = WAIT_TIMEOUT")
    case False
    then show ?thesis
      using pw nz c0 by (simp add: Let_def)
  next
    case True
    show ?thesis
    proof (cases res)
      case (Some e)
      then show ?thesis
        using pw True rp c0 by (simp add: w1_def)
    next
      case None
      then show ?thesis
        using pw True rp c0 ih by (simp add: w1_def Let_def after_loop_def)
    qed
  qed
qed

lemma args_code [simp]: "code_m (args c xs f p) = code_m p"
  by (induction xs arbitrary: p) (simp_all add: add_arg_def)

lemma args2_code [simp]: "code_m (args2 c xs f p) = code_m p"
  by (induction c xs f p rule: args2.induct) (simp_all add: arg2_def add_arg_def)

lemma pipe_code [simp]: "code_m (pipe p ps) = code_m p"
  by (cases ps) (simp_all add: Let_def pipe_into_def process_copy_def)

lemma run_code [simp]: "code_m (fst (snd (run c io p w))) = code_m p"
proof -
  obtain r1 q1 w1 where c1: "create (sp_stdout io) (impl_stdout_pipe (impl_m p))
       (cx_log R_cmd Lv_debug (''> '' @ make_cmd p)
          (if cwd_m p \<noteq> [] then cx_log R_cmd Lv_debug (''> cd '' @ cwd_m p) w else w)) = (r1, q1, w1)"
    by (metis prod_cases3)
  obtain r2 q2 w2 where c2: "create (sp_stderr io) (impl_stderr_pipe (impl_m p)) w1 = (r2, q2, w2)"
    by (metis prod_cases3)
  show ?thesis
    using c1 c2
    by (simp add: run_def do_run_def Let_def split: sum.splits option.splits prod.splits)
qed


lemma sample_pipe_fields:
  "stdout_m sample_pipe = Some 11" "event_m sample_pipe = Some 13" "\<not> pending_m sample_pipe"
  by (simp_all add: demo_defs run_defs build_defs pipe_defs Let_def)

lemma tool_fields:
  "raw_m (tool f) = []" "impl_handle (impl_m (tool f)) = None" "make_cmd (tool f) = [dq] @ ''tool.exe'' @ [dq]"
  by (simp_all add: demo_defs build_defs)

lemma sample_ticks:
  "\<forall>x\<in>set [tick_timeout]. idle_tick x"
  "t_wait (tick_exit k) = WAIT_OBJECT_0" "\<not> t_interrupt (tick_exit k)"
  "no_fatal_io (t_out (tick_exit k))" "no_fatal_io (t_err (tick_exit k))"
  "t_exit_code (tick_exit k) = Some k"
  "t_wait tick_timeout = WAIT_TIMEOUT" "t_wait tick_interrupted = WAIT_TIMEOUT"
  "t_interrupt tick_interrupted"
  "no_fatal_io (t_out tick_interrupted)" "no_fatal_io (t_err tick_interrupted)"
  by (simp_all add: idle_tick_def no_fatal_io_def demo_defs)

section \<open>The exit-code policy of \<^verbatim>\<open>join\<close>\<close>

text \<open>
  C1. A child is running (the handle is set) and \<^verbatim>\<open>interrupt()\<close> is never called. The loop
  polls through any number of idle iterations, then the wait is satisfied, the final drain
  raises nothing and \<^verbatim>\<open>GetExitCodeProcess\<close> stores the code. Then \<^verbatim>\<open>join()\<close> returns normally
  when the code is 0 or \<^verbatim>\<open>allow_failure\<close> is set, and otherwise fails with the message made
  of the process's name, the text \<^verbatim>\<open>returned\<close> and the code in decimal. In every case
  \<^verbatim>\<open>exit_code()\<close> afterwards is that code (the same 32 bits, read as an \<^verbatim>\<open>int\<close>), and an
  allowed failure ends with its log line.
\<close>

theorem join_exit_code_policy:
  assumes hd: "impl_handle (impl_m p) = Some h"
      and ni: "\<not> impl_interrupt (impl_m p)"
      and pre: "\<forall>x\<in>set pre. idle_tick x"
      and t: "t_wait t = WAIT_OBJECT_0" "\<not> t_interrupt t" "no_fatal_io (t_out t)" "no_fatal_io (t_err t)"
      and code: "t_exit_code t = Some code"
  shows "fst (join c (pre @ t # rest) p w) =
           (if code = 0 \<or> flags_m p AND allow_failure \<noteq> 0 then Returned
            else Failed (Bailed (make_name p @ '' returned '' @ to_string (unat code)) None))
       \<and> exit_code (fst (snd (join c (pre @ t # rest) p w))) = sint code
       \<and> word_of_int (exit_code (fst (snd (join c (pre @ t # rest) p w)))) = code
       \<and> (code \<noteq> 0 \<and> flags_m p AND allow_failure \<noteq> 0 \<longrightarrow>
            last (trace (snd (snd (join c (pre @ t # rest) p w))))
              = Log R_cmd Lv_debug ''process failed but failure was allowed'')"
proof -
  define w0 where "w0 = cx_log R_cmd Lv_trace ''joining'' w"
  obtain a b w1 where pf: "join_loop c h (pre @ t # rest) False p w0 = join_loop c h (t # rest) False (set_pipes a b p) w1"
    using join_loop_idle_prefix [OF pre ni, of c h "t # rest" False w0] by blast
  define q where "q = set_pipes a b p"
  define w2 where "w2 = emit (Sys_WaitProcess h 100) w1"
  have j: "join c (pre @ t # rest) p w = on_exit c t False q w2"
    using hd pf t by (simp add: join_def w0_def q_def w2_def)
  have nq: "\<not> impl_interrupt (impl_m q)"
    using ni by (simp add: q_def)
  note pol = on_exit_policy [OF t(3) t(4) code nq, where c = c and i = False and w = w2]
  show ?thesis
    using pol by (simp add: j exit_code_def q_def)
qed

theorem join_exit_code_policy_witness:
  "fst (join live_conf [tick_timeout, tick_exit 0] (started noflags) w_start) = Returned
   \<and> fst (join live_conf [tick_timeout, tick_exit 7] (started allow_failure) w_start) = Returned
   \<and> exit_code (fst (snd (join live_conf [tick_timeout, tick_exit 7] (started allow_failure) w_start))) = 7
   \<and> last (trace (snd (snd (join live_conf [tick_timeout, tick_exit 7] (started allow_failure) w_start))))
        = Log R_cmd Lv_debug ''process failed but failure was allowed''
   \<and> fst (join live_conf [tick_timeout, tick_exit 7] (started noflags) w_start)
        = Failed (Bailed ''tool returned 7'' None)"
proof -
  note a = join_exit_code_policy [OF started_handle [of noflags] started_fields(3) [of noflags]
      sample_ticks(1) sample_ticks(2-6) [of 0], where c = live_conf and rest = "[]" and w = w_start]
  note b = join_exit_code_policy [OF started_handle [of allow_failure] started_fields(3) [of allow_failure]
      sample_ticks(1) sample_ticks(2-6) [of 7], where c = live_conf and rest = "[]" and w = w_start]
  note c = join_exit_code_policy [OF started_handle [of noflags] started_fields(3) [of noflags]
      sample_ticks(1) sample_ticks(2-6) [of 7], where c = live_conf and rest = "[]" and w = w_start]
  show ?thesis
    using a b c
    by (simp add: started_fields make_name_def to_string.simps digit_char_def)
qed


section \<open>Pipelines\<close>

lemma pipe_two_stages:
  "make_cmd (pipe p1 [p2]) = make_cmd p1 @ '' | '' @ make_cmd p2"
  by (simp add: Let_def pipe_into_def process_copy_def make_cmd_def)

lemma pipe_first_settings:
  "cwd_m (pipe p ps) = cwd_m p \<and> env_m (pipe p ps) = env_m p \<and> flags_m (pipe p ps) = flags_m p"
  by (cases ps) (simp_all add: Let_def pipe_into_def process_copy_def)

lemma pipe_later_stages_dropped: "pipe p1 (p2 # ps) = pipe p1 [p2]"
  by (simp add: Let_def)

text \<open>
  C2. The claim is that \<^verbatim>\<open>pipe(p1, p2, p3)\<close> on command texts \<^verbatim>\<open>a\<close>, \<^verbatim>\<open>b\<close>, \<^verbatim>\<open>c\<close> resolves to
  \<^verbatim>\<open>a | b | c\<close>. The variadic overload drops the result of its recursive call, so the
  third stage never reaches the returned object: on the three raw specs the resolved text
  is \<^verbatim>\<open>a | b\<close>.
\<close>

theorem pipe_three_stages_drops_last:
  "make_cmd (pipe (raw ''a'') [raw ''b'', raw ''c'']) = ''a | b''"
  by (simp add: Let_def pipe_into_def process_copy_def raw_def make_cmd_def process_init_def)

section \<open>Interruption\<close>

text \<open>
  C3, as stated, fails. The flag \<^verbatim>\<open>terminate_on_interrupt\<close> is set, the first poll times out
  with the child alive, \<^verbatim>\<open>interrupt()\<close> is called, and the child exits with code 0 before the
  next 100 ms wait runs out. That wait is satisfied, the loop leaves through the check of
  the interrupt flag, and no \<^verbatim>\<open>TerminateProcess\<close> is ever issued: the child was not killed.
\<close>

theorem interrupt_before_exit_not_killed:
  "flags_m (started terminate_on_interrupt) AND terminate_on_interrupt = terminate_on_interrupt
   \<and> t_wait tick_timeout = WAIT_TIMEOUT
   \<and> t_interrupt (tick_exit_interrupted 0)
   \<and> fst (join live_conf [tick_timeout, tick_exit_interrupted 0]
             (started terminate_on_interrupt) w_start) = Returned
   \<and> kills_sent (snd (snd (join live_conf [tick_timeout, tick_exit_interrupted 0]
             (started terminate_on_interrupt) w_start))) = 0"
  by (simp add: demo_defs run_defs build_defs pipe_defs Let_def to_string.simps digit_char_def
      kills_sent_def emit_def cx_log_def)

text \<open>
  C3, amended. With \<^verbatim>\<open>terminate_on_interrupt\<close> set, let the interrupt flag be set when an
  iteration samples it, for the first time in this call (set before \<^verbatim>\<open>join()\<close>, or by another
  thread after any number of idle polls), and let the reads raise nothing. Then \<^verbatim>\<open>join()\<close>
  returns normally whatever the exit code is, so the exit-code policy is not applied. The
  child is forcibly terminated, once, exactly when that iteration's wait timed out; the
  call is then the last thing done and the stored exit code is untouched. When the wait
  was satisfied instead, the child had exited by itself and nothing is terminated.
\<close>

theorem join_terminate_on_interrupt:
  assumes hd: "impl_handle (impl_m p) = Some h"
      and fl: "flags_m p AND terminate_on_interrupt \<noteq> 0"
      and pre: "\<forall>x\<in>set pre. idle_tick x"
      and fresh: "pre = [] \<or> \<not> impl_interrupt (impl_m p)"
      and intr: "impl_interrupt (impl_m p) \<or> t_interrupt t"
      and io: "no_fatal_io (t_out t)" "no_fatal_io (t_err t)"
      and wt: "t_wait t = WAIT_TIMEOUT \<or> t_wait t = WAIT_OBJECT_0"
  shows "fst (join c (pre @ t # rest) p w) = Returned
       \<and> kills_sent (snd (snd (join c (pre @ t # rest) p w)))
           = kills_sent w + (if t_wait t = WAIT_TIMEOUT then 1 else 0)
       \<and> (t_wait t = WAIT_TIMEOUT \<longrightarrow>
            last (trace (snd (snd (join c (pre @ t # rest) p w)))) = Sys_TerminateProcess h 65535
            \<and> code_m (fst (snd (join c (pre @ t # rest) p w))) = code_m p)"
proof -
  define w0 where "w0 = cx_log R_cmd Lv_trace ''joining'' w"
  have "\<exists>a b w1. join_loop c h (pre @ t # rest) False p w0 = join_loop c h (t # rest) False (set_pipes a b p) w1
          \<and> kills_sent w1 = kills_sent w0"
  proof (cases "pre = []")
    case True
    then show ?thesis
      using set_pipes_same [of p] by (metis append_Nil)
  next
    case False
    then have "\<not> impl_interrupt (impl_m p)" using fresh by simp
    then show ?thesis
      using join_loop_idle_prefix [OF pre, of p c h "t # rest" False w0] by blast
  qed
  then obtain a b w1 where pf: "join_loop c h (pre @ t # rest) False p w0 = join_loop c h (t # rest) False (set_pipes a b p) w1"
    and k1: "kills_sent w1 = kills_sent w0"
    by blast
  define q where "q = set_pipes a b p"
  obtain q0 w2 where pw: "(if t_interrupt t then interrupt q w1 else (q, w1)) = (q0, w2)"
    by (metis surj_pair)
  have q0: "impl_interrupt (impl_m q0)" "flags_m q0 = flags_m p" "code_m q0 = code_m p"
    using pw intr by (auto simp: interrupt_def q_def split: if_splits)
  have k2: "kills_sent w2 = kills_sent w"
    using pw k1 by (auto simp: interrupt_def w0_def split: if_splits)
  define w3 where "w3 = emit (Sys_WaitProcess h 100) w2"
  have k3: "kills_sent w3 = kills_sent w"
    using k2 by (simp add: w3_def)
  have j: "join c (pre @ t # rest) p w = join_loop c h (t # rest) False q w1"
    using hd pf by (simp add: join_def w0_def q_def)
  from wt show ?thesis
  proof
    assume ex: "t_wait t = WAIT_OBJECT_0"
    have "join c (pre @ t # rest) p w = on_exit c t False q0 w3"
      using j pw ex by (simp add: w3_def)
    then show ?thesis
      using on_exit_interrupted [OF io q0(1), of c False w3] on_exit_signals [of c t False q0 w3] k3 ex
      by simp
  next
    assume to: "t_wait t = WAIT_TIMEOUT"
    obtain a' b' w4 where rp: "read_pipes c (t_out t) (t_err t) q0 w3 = (None, set_pipes a' b' q0, w4)"
      and k4: "kills_sent w4 = kills_sent w3"
      using read_pipes_shape [of c "t_out t" "t_err t" q0 w3] io by blast
    have "join c (pre @ t # rest) p w =
            after_loop False (set_pipes a' b' q0)
              (emit (Sys_TerminateProcess h 65535)
                 (cx_log R_cmd Lv_trace ''terminating process (flag is set)'' w4))"
      using j pw to rp q0 fl by (simp add: w3_def)
    then show ?thesis
      using to k4 k3 q0 by (simp add: after_loop_def)
  qed
qed

theorem join_terminate_on_interrupt_witness:
  "fst (join live_conf [tick_timeout, tick_interrupted, tick_exit 0]
          (started terminate_on_interrupt) w_start) = Returned
   \<and> kills_sent (snd (snd (join live_conf [tick_timeout, tick_interrupted, tick_exit 0]
          (started terminate_on_interrupt) w_start))) = 1
   \<and> last (trace (snd (snd (join live_conf [tick_timeout, tick_interrupted, tick_exit 0]
          (started terminate_on_interrupt) w_start)))) = Sys_TerminateProcess 30 65535
   \<and> fst (join live_conf [tick_exit 7]
          (fst (interrupt (started terminate_on_interrupt) w_start)) w_start) = Returned
   \<and> kills_sent (snd (snd (join live_conf [tick_exit 7]
          (fst (interrupt (started terminate_on_interrupt) w_start)) w_start))) = 0"
proof -
  have fl: "flags_m (started terminate_on_interrupt) AND terminate_on_interrupt \<noteq> 0"
    by (simp add: started_fields)
  have a1: "[] = [] \<or> \<not> impl_interrupt (impl_m (started terminate_on_interrupt))"
           "[tick_timeout] = [] \<or> \<not> impl_interrupt (impl_m (started terminate_on_interrupt))"
    by (simp_all add: started_fields)
  have a2: "impl_interrupt (impl_m (started terminate_on_interrupt)) \<or> t_interrupt tick_interrupted"
    by (simp add: sample_ticks)
  have a3: "t_wait tick_interrupted = WAIT_TIMEOUT \<or> t_wait tick_interrupted = WAIT_OBJECT_0"
    by (simp add: sample_ticks)
  note a = join_terminate_on_interrupt [OF started_handle [of terminate_on_interrupt] fl
      sample_ticks(1) a1(2) a2 sample_ticks(10) sample_ticks(11) a3,
      where c = live_conf and rest = "[tick_exit 0]" and w = w_start]
  define q where "q = fst (interrupt (started terminate_on_interrupt) w_start)"
  have qh: "impl_handle (impl_m q) = Some 30"
    and qf: "flags_m q AND terminate_on_interrupt \<noteq> 0"
    and qi: "impl_interrupt (impl_m q) \<or> t_interrupt (tick_exit 7)"
    and qp: "\<forall>x\<in>set []. idle_tick x"
    and qe: "[] = [] \<or> \<not> impl_interrupt (impl_m q)"
    and qw: "t_wait (tick_exit 7) = WAIT_TIMEOUT \<or> t_wait (tick_exit 7) = WAIT_OBJECT_0"
    using started_handle [of terminate_on_interrupt] started_fields(1) [of terminate_on_interrupt]
    by (simp_all add: q_def interrupt_def sample_ticks)
  note b = join_terminate_on_interrupt [OF qh qf qp qe qi sample_ticks(4) [of 7] sample_ticks(5) [of 7] qw,
      where c = live_conf and rest = "[]" and w = w_start]
  have k0: "kills_sent w_start = 0"
    by (simp add: kills_sent_def w_start_def)
  show ?thesis
    using a b k0 by (simp add: sample_ticks q_def)
qed

text \<open>
  C4. Whatever the flags, the iterations and the answers of the system, one \<^verbatim>\<open>join()\<close> call
  sends at most one break signal: the count of \<^verbatim>\<open>CTRL_BREAK_EVENT\<close> signals in the trace grows
  by at most one, also when the call fails or is still polling at the end of the
  iterations considered.
\<close>

theorem join_break_at_most_once:
  "breaks_sent (snd (snd (join c ts p w))) \<le> breaks_sent w + 1"
proof (cases "impl_handle (impl_m p)")
  case None
  then show ?thesis by (simp add: join_def)
next
  case (Some h)
  then show ?thesis
    using join_loop_breaks [of c h ts False p "cx_log R_cmd Lv_trace ''joining'' w"]
    by (simp add: join_def)
qed

theorem join_break_at_most_once_witness:
  "breaks_sent (snd (snd (join live_conf [tick_interrupted, tick_timeout, tick_timeout, tick_timeout, tick_exit 0]
       (started noflags) w_start))) \<le> breaks_sent w_start + 1
   \<and> breaks_sent (snd (snd (join live_conf [tick_interrupted, tick_timeout, tick_timeout, tick_timeout, tick_exit 0]
       (started noflags) w_start))) = 1"
proof -
  have a: "breaks_sent (snd (snd (join live_conf [tick_interrupted, tick_timeout, tick_timeout, tick_timeout, tick_exit 0]
       (started noflags) w_start))) \<le> breaks_sent w_start + 1"
    by (rule join_break_at_most_once)
  have b: "breaks_sent (snd (snd (join live_conf [tick_interrupted, tick_timeout, tick_timeout, tick_timeout, tick_exit 0]
       (started noflags) w_start))) = 1"
    by (simp add: demo_defs run_defs build_defs pipe_defs Let_def to_string.simps digit_char_def
      breaks_sent_def emit_def cx_log_def)
  show ?thesis
    by (rule conjI [OF a b])
qed

section \<open>Reading a pipe\<close>

text \<open>
  C5. A \<^verbatim>\<open>read()\<close> with no request pending whose \<^verbatim>\<open>ReadFile\<close> cannot complete at once returns
  nothing and marks the pipe pending. A \<^verbatim>\<open>read()\<close> on a pending pipe issues no \<^verbatim>\<open>ReadFile\<close>:
  the first thing it does is wait on the completion event. And when the requests
  outstanding on the pipe's handle are one if the pipe is pending and none otherwise, the
  same holds after the \<^verbatim>\<open>read()\<close>, so there is never more than one.
\<close>

theorem read_single_outstanding_request:
  "(\<not> pending_m p \<and> io_read_file io = Inl ERROR_IO_PENDING \<longrightarrow>
      read io p w = (Inr [], p\<lparr>pending_m := True\<rparr>,
                     emit (Sys_ReadFile (handle_get (stdout_m p)) (Inl ERROR_IO_PENDING)) w))
   \<and> (pending_m p \<longrightarrow>
        read_requests (snd (snd (read io p w))) = read_requests w
        \<and> trace (snd (snd (read io p w))) ! length (trace w)
             = Sys_WaitEvent (handle_get (event_m p)) pipe_timeout)
   \<and> (outstanding (handle_get (stdout_m p)) w = (if pending_m p then 1 else 0) \<longrightarrow>
        outstanding (handle_get (stdout_m p)) (snd (snd (read io p w)))
          = (if pending_m (fst (snd (read io p w))) then 1 else 0)
        \<and> outstanding (handle_get (stdout_m p)) (snd (snd (read io p w))) \<le> 1
        \<and> stdout_m (fst (snd (read io p w))) = stdout_m p)"
  by (auto simp: read_def try_read_def check_pending_def Let_def read_requests_def outstanding_def nth_append
           split: sum.splits)

theorem read_single_outstanding_request_witness:
  "read io_nothing_yet sample_pipe w_start
     = (Inr [], sample_pipe\<lparr>pending_m := True\<rparr>, emit (Sys_ReadFile 11 (Inl ERROR_IO_PENDING)) w_start)
   \<and> read_requests (snd (snd (read io_nothing_yet (sample_pipe\<lparr>pending_m := True\<rparr>)
                                  (emit (Sys_ReadFile 11 (Inl ERROR_IO_PENDING)) w_start)))) = 1
   \<and> outstanding 11 (snd (snd (read io_nothing_yet (sample_pipe\<lparr>pending_m := True\<rparr>)
                                  (emit (Sys_ReadFile 11 (Inl ERROR_IO_PENDING)) w_start)))) = 1
   \<and> trace (snd (snd (read io_nothing_yet (sample_pipe\<lparr>pending_m := True\<rparr>)
                                  (emit (Sys_ReadFile 11 (Inl ERROR_IO_PENDING)) w_start)))) ! 1
        = Sys_WaitEvent 13 500"
proof -
  define q where "q = sample_pipe\<lparr>pending_m := True\<rparr>"
  define w1 where "w1 = emit (Sys_ReadFile 11 (Inl ERROR_IO_PENDING)) w_start"
  have h1: "\<not> pending_m sample_pipe \<and> io_read_file io_nothing_yet = Inl ERROR_IO_PENDING"
    by (simp add: sample_pipe_fields io_nothing_yet_def)
  have h2: "pending_m q"
    by (simp add: q_def)
  have h3: "outstanding (handle_get (stdout_m q)) w1 = (if pending_m q then 1 else 0)"
    by (simp add: q_def w1_def sample_pipe_fields handle_get_def outstanding_def w_start_def)
  have r1: "read_requests w1 = 1" "length (trace w1) = 1"
    by (simp_all add: w1_def read_requests_def w_start_def)
  have q2: "pending_m (fst (snd (read io_nothing_yet q w1)))"
    by (simp add: q_def read_def check_pending_def io_nothing_yet_def Let_def)
  note a = read_single_outstanding_request [of sample_pipe io_nothing_yet w_start]
  note b = read_single_outstanding_request [of q io_nothing_yet w1]
  have c1: "read io_nothing_yet sample_pipe w_start
     = (Inr [], sample_pipe\<lparr>pending_m := True\<rparr>, emit (Sys_ReadFile 11 (Inl ERROR_IO_PENDING)) w_start)"
    using a h1 by (simp add: sample_pipe_fields handle_get_def)
  have c2: "read_requests (snd (snd (read io_nothing_yet q w1))) = 1"
    using b h2 r1 by simp
  have c3: "outstanding 11 (snd (snd (read io_nothing_yet q w1))) = 1"
    using b h3 q2 by (simp add: q_def sample_pipe_fields handle_get_def)
  have c4: "trace (snd (snd (read io_nothing_yet q w1))) ! 1 = Sys_WaitEvent 13 500"
    using b h2 r1 by (simp add: q_def sample_pipe_fields handle_get_def pipe_timeout_def)
  show ?thesis
    using c1 c2 c3 c4 by (simp add: q_def w1_def)
qed

text \<open>
  C6. A broken pipe reported by \<^verbatim>\<open>ReadFile\<close>, or by \<^verbatim>\<open>GetOverlappedResult\<close> after a wait
  that did not fail, makes \<^verbatim>\<open>read()\<close> return nothing and leaves the pipe as it was. Any
  error of \<^verbatim>\<open>ReadFile\<close> other than pending and broken pipe, a failed wait, and any error of
  \<^verbatim>\<open>GetOverlappedResult\<close> other than incomplete, timeout and broken pipe, is fatal.
\<close>

theorem read_broken_pipe_not_fatal:
  "(\<not> pending_m p \<and> io_read_file io = Inl ERROR_BROKEN_PIPE \<longrightarrow>
      fst (read io p w) = Inr [] \<and> fst (snd (read io p w)) = p)
   \<and> (pending_m p \<and> io_wait io \<noteq> WAIT_FAILED \<and> io_overlapped io = Inl ERROR_BROKEN_PIPE \<longrightarrow>
      fst (read io p w) = Inr [] \<and> fst (snd (read io p w)) = p)
   \<and> (\<not> pending_m p \<and> io_read_file io = Inl e \<and> e \<noteq> ERROR_IO_PENDING \<and> e \<noteq> ERROR_BROKEN_PIPE \<longrightarrow>
      fst (read io p w) = Inl (Bailed ''async_pipe read failed'' (Some e)))
   \<and> (pending_m p \<and> io_wait io = WAIT_FAILED \<longrightarrow>
      fst (read io p w) = Inl (Bailed ''WaitForSingleObject in async_pipe failed'' (Some (io_wait_error io))))
   \<and> (pending_m p \<and> io_wait io \<noteq> WAIT_FAILED \<and> io_overlapped io = Inl e
        \<and> e \<noteq> ERROR_IO_INCOMPLETE \<and> e \<noteq> WAIT_TIMEOUT \<and> e \<noteq> ERROR_BROKEN_PIPE \<longrightarrow>
      fst (read io p w) = Inl (Bailed ''GetOverlappedResult failed in async_pipe'' (Some e)))"
  by (auto simp: read_def try_read_def check_pending_def Let_def)

theorem read_broken_pipe_not_fatal_witness:
  "fst (read io_closed sample_pipe w_start) = Inr []
   \<and> fst (read io_closed (sample_pipe\<lparr>pending_m := True\<rparr>) w_start) = Inr []
   \<and> fst (read io_denied sample_pipe w_start) = Inl (Bailed ''async_pipe read failed'' (Some 5))
   \<and> fst (read io_wait_failed (sample_pipe\<lparr>pending_m := True\<rparr>) w_start)
        = Inl (Bailed ''WaitForSingleObject in async_pipe failed'' (Some 6))
   \<and> fst (read io_denied (sample_pipe\<lparr>pending_m := True\<rparr>) w_start)
        = Inl (Bailed ''GetOverlappedResult failed in async_pipe'' (Some 5))"
proof -
  define q where "q = sample_pipe\<lparr>pending_m := True\<rparr>"
  have np: "\<not> pending_m sample_pipe" by (rule sample_pipe_fields(3))
  have pq: "pending_m q" by (simp add: q_def)
  note a = read_broken_pipe_not_fatal [where p = sample_pipe and io = io_closed and e = 5 and w = w_start]
  note b = read_broken_pipe_not_fatal [where p = q and io = io_closed and e = 5 and w = w_start]
  note c = read_broken_pipe_not_fatal [where p = sample_pipe and io = io_denied and e = 5 and w = w_start]
  note d = read_broken_pipe_not_fatal [where p = q and io = io_wait_failed and e = 5 and w = w_start]
  note e = read_broken_pipe_not_fatal [where p = q and io = io_denied and e = 5 and w = w_start]
  have c1: "fst (read io_closed sample_pipe w_start) = Inr []"
    using a np by (simp add: io_closed_def)
  have c2: "fst (read io_closed q w_start) = Inr []"
    using b pq by (simp add: io_closed_def)
  have c3: "fst (read io_denied sample_pipe w_start) = Inl (Bailed ''async_pipe read failed'' (Some 5))"
    using c np by (simp add: io_denied_def)
  have c4: "fst (read io_wait_failed q w_start)
        = Inl (Bailed ''WaitForSingleObject in async_pipe failed'' (Some 6))"
    using d pq by (simp add: io_wait_failed_def)
  have c5: "fst (read io_denied q w_start)
        = Inl (Bailed ''GetOverlappedResult failed in async_pipe'' (Some 5))"
    using e pq by (simp add: io_denied_def)
  show ?thesis
    using c1 c2 c3 c4 c5 by (simp add: q_def)
qed

section \<open>Arguments\<close>

text \<open>
  C7. On a spec without a raw command: \<^verbatim>\<open>arg("--stagedir=", path)\<close> appends the key and the
  quoted path with nothing between them; \<^verbatim>\<open>arg("--with", "thread")\<close> appends key and value
  with one space between them; a value tagged \<^verbatim>\<open>quiet\<close> is left out when trace logging is on
  and, when it is not tagged \<^verbatim>\<open>verbose\<close> as well and is not empty, appended when trace
  logging is off; a value tagged \<^verbatim>\<open>verbose\<close> the other way round.
\<close>

theorem arg_rendering:
  assumes "raw_m p = []"
  shows "make_cmd (arg2 c ''--stagedir='' (Path x) noargflags p)
           = make_cmd p @ '' --stagedir='' @ [dq] @ x @ [dq]
       \<and> make_cmd (arg2 c ''--with'' (Chars ''thread'') noargflags p) = make_cmd p @ '' --with thread''
       \<and> (f AND quiet \<noteq> 0 \<and> log_trace c \<longrightarrow> make_cmd (arg c v f p) = make_cmd p)
       \<and> (f AND quiet \<noteq> 0 \<and> f AND verbose = 0 \<and> \<not> log_trace c
            \<and> arg_to_string v (f AND quote \<noteq> 0) \<noteq> [] \<longrightarrow>
          make_cmd (arg c v f p) = make_cmd p @ '' '' @ arg_to_string v (f AND quote \<noteq> 0))
       \<and> (g AND verbose \<noteq> 0 \<and> \<not> log_trace c \<longrightarrow> make_cmd (arg c v g p) = make_cmd p)
       \<and> (g AND verbose \<noteq> 0 \<and> g AND quiet = 0 \<and> log_trace c
            \<and> arg_to_string v (g AND quote \<noteq> 0) \<noteq> [] \<longrightarrow>
          make_cmd (arg c v g p) = make_cmd p @ '' '' @ arg_to_string v (g AND quote \<noteq> 0))"
  using assms by (simp add: arg2_def arg_def add_arg_def make_cmd_def)

theorem arg_rendering_witness:
  "make_cmd (arg2 live_conf ''--stagedir='' (Path ''C:/b'') noargflags (tool noflags))
     = [dq] @ ''tool.exe'' @ [dq] @ '' --stagedir='' @ [dq] @ ''C:/b'' @ [dq]
   \<and> make_cmd (arg2 live_conf ''--with'' (Chars ''thread'') noargflags (tool noflags))
     = [dq] @ ''tool.exe'' @ [dq] @ '' --with thread''
   \<and> make_cmd (arg verbose_conf (Chars ''-q'') quiet (tool noflags)) = [dq] @ ''tool.exe'' @ [dq]
   \<and> make_cmd (arg live_conf (Chars ''-q'') quiet (tool noflags)) = [dq] @ ''tool.exe'' @ [dq] @ '' -q''
   \<and> make_cmd (arg live_conf (Chars ''-v'') verbose (tool noflags)) = [dq] @ ''tool.exe'' @ [dq]
   \<and> make_cmd (arg verbose_conf (Chars ''-v'') verbose (tool noflags)) = [dq] @ ''tool.exe'' @ [dq] @ '' -v''"
proof -
  note a = arg_rendering [OF tool_fields(1) [of noflags],
      where c = live_conf and x = "''C:/b''" and f = quiet and g = verbose and v = "Chars ''-q''"]
  note b = arg_rendering [OF tool_fields(1) [of noflags],
      where c = verbose_conf and x = "''C:/b''" and f = quiet and g = verbose and v = "Chars ''-q''"]
  note c = arg_rendering [OF tool_fields(1) [of noflags],
      where c = live_conf and x = "''C:/b''" and f = quiet and g = verbose and v = "Chars ''-v''"]
  note d = arg_rendering [OF tool_fields(1) [of noflags],
      where c = verbose_conf and x = "''C:/b''" and f = quiet and g = verbose and v = "Chars ''-v''"]
  have lt: "\<not> log_trace live_conf" "log_trace verbose_conf"
    by (simp_all add: live_conf_def verbose_conf_def)
  show ?thesis
    using a b c d lt by (simp add: tool_fields)
qed

section \<open>Dry runs, destruction and the stored exit code\<close>

text \<open>
  C8. With the dry-run switch set, \<^verbatim>\<open>run()\<close> on a supervisor that owns no child adds to the
  trace the line for the working directory (when one is configured) and the line for the
  resolved command, and nothing else: no pipe and no process is created and the object is
  unchanged. A \<^verbatim>\<open>join()\<close> that follows returns at once, leaving object and world as they are.
\<close>

theorem dry_run_no_child:
  assumes "dry c" and "impl_handle (impl_m p) = None"
  shows "run c io p w =
           (None, p, w\<lparr>trace := trace w @ (if cwd_m p \<noteq> [] then [Log R_cmd Lv_debug (''> cd '' @ cwd_m p)] else [])
                                    @ [Log R_cmd Lv_debug (''> '' @ make_cmd p)]\<rparr>)
       \<and> join c ts (fst (snd (run c io p w))) (snd (snd (run c io p w)))
           = (Returned, p, snd (snd (run c io p w)))"
  using assms by (simp add: run_def Let_def join_def cx_log_def emit_def)

theorem dry_run_no_child_witness:
  "run dry_conf spawn_ok (cwd ''build'' (tool noflags)) w_start
     = (None, cwd ''build'' (tool noflags),
        \<lparr>trace = [Log R_cmd Lv_debug ''> cd build'',
                   Log R_cmd Lv_debug (''> '' @ [dq] @ ''tool.exe'' @ [dq])], pipe_id = 0\<rparr>)
   \<and> fst (join dry_conf [tick_exit 7]
        (fst (snd (run dry_conf spawn_ok (cwd ''build'' (tool noflags)) w_start)))
        (snd (snd (run dry_conf spawn_ok (cwd ''build'' (tool noflags)) w_start)))) = Returned"
proof -
  have d: "dry dry_conf" by (simp add: dry_conf_def)
  have h: "impl_handle (impl_m (cwd ''build'' (tool noflags))) = None"
    by (simp add: cwd_def tool_fields)
  have m: "make_cmd (cwd ''build'' (tool noflags)) = [dq] @ ''tool.exe'' @ [dq]"
          "cwd_m (cwd ''build'' (tool noflags)) = ''build''"
    using tool_fields(1,3) [of noflags] by (simp_all add: cwd_def make_cmd_def)
  note a = dry_run_no_child [OF d h, where io = spawn_ok and w = w_start and ts = "[tick_exit 7]"]
  have c1: "run dry_conf spawn_ok (cwd ''build'' (tool noflags)) w_start
     = (None, cwd ''build'' (tool noflags),
        \<lparr>trace = [Log R_cmd Lv_debug ''> cd build'',
                   Log R_cmd Lv_debug (''> '' @ [dq] @ ''tool.exe'' @ [dq])], pipe_id = 0\<rparr>)"
    using conjunct1 [OF a] by (simp add: m w_start_def)
  have c2: "fst (join dry_conf [tick_exit 7]
        (fst (snd (run dry_conf spawn_ok (cwd ''build'' (tool noflags)) w_start)))
        (snd (snd (run dry_conf spawn_ok (cwd ''build'' (tool noflags)) w_start)))) = Returned"
    by (simp only: conjunct2 [OF a] fst_conv)
  show ?thesis
    by (rule conjI [OF c1 c2])
qed

text \<open>
  C9. The destructor runs \<^verbatim>\<open>join()\<close>: object and world end as \<^verbatim>\<open>join()\<close> leaves them. It never
  ends in a fatal error: when the join fails, the destructor returns normally.
\<close>

theorem dtor_never_fails:
  "fst (process_dtor c ts p w) \<noteq> Failed e
   \<and> snd (process_dtor c ts p w) = snd (join c ts p w)
   \<and> (fst (join c ts p w) = Failed e \<longrightarrow> fst (process_dtor c ts p w) = Returned)"
  by (cases "join c ts p w" rule: prod_cases3; cases "fst (join c ts p w)")
     (auto simp: process_dtor_def)

theorem dtor_never_fails_witness:
  "fst (join live_conf [tick_exit 7] (started noflags) w_start) = Failed (Bailed ''tool returned 7'' None)
   \<and> fst (process_dtor live_conf [tick_exit 7] (started noflags) w_start) = Returned
   \<and> snd (process_dtor live_conf [tick_exit 7] (started noflags) w_start)
       = snd (join live_conf [tick_exit 7] (started noflags) w_start)"
proof -
  have a: "fst (join live_conf [tick_exit 7] (started noflags) w_start) = Failed (Bailed ''tool returned 7'' None)"
    by (simp add: demo_defs run_defs build_defs pipe_defs Let_def to_string.simps digit_char_def)
  note b = dtor_never_fails [of live_conf "[tick_exit 7]" "started noflags" w_start "Bailed ''tool returned 7'' None"]
  show ?thesis
    using a b by simp
qed

text \<open>
  C10. \<^verbatim>\<open>exit_code()\<close> is 0 on a constructed object and on a raw one; copying, piping, every
  builder call, \<^verbatim>\<open>run()\<close> (dry or not) and \<^verbatim>\<open>interrupt()\<close> leave it as it is; and so does a
  \<^verbatim>\<open>join()\<close> for as long as no wait on the child has been satisfied.
\<close>

theorem exit_code_zero_until_exit:
  "exit_code process_init = 0
   \<and> exit_code (raw s) = 0
   \<and> exit_code (process_copy p) = exit_code p
   \<and> exit_code (pipe p ps) = exit_code p
   \<and> exit_code (name n p) = exit_code p
   \<and> exit_code (binary b p) = exit_code p
   \<and> exit_code (cwd d p) = exit_code p
   \<and> exit_code (flags fl p) = exit_code p
   \<and> exit_code (env e p) = exit_code p
   \<and> exit_code (stdout_level l p) = exit_code p
   \<and> exit_code (stdout_filter g p) = exit_code p
   \<and> exit_code (stderr_level l p) = exit_code p
   \<and> exit_code (stderr_filter g p) = exit_code p
   \<and> exit_code (arg c v f p) = exit_code p
   \<and> exit_code (arg2 c k v f p) = exit_code p
   \<and> exit_code (args c xs f p) = exit_code p
   \<and> exit_code (args2 c kvs f p) = exit_code p
   \<and> exit_code (fst (snd (run c io p w))) = exit_code p
   \<and> exit_code (fst (interrupt p w)) = exit_code p
   \<and> ((\<forall>t\<in>set ts. t_wait t \<noteq> WAIT_OBJECT_0) \<longrightarrow>
        exit_code (fst (snd (join c ts p w))) = exit_code p)"
proof -
  have j: "(\<forall>t\<in>set ts. t_wait t \<noteq> WAIT_OBJECT_0) \<longrightarrow> code_m (fst (snd (join c ts p w))) = code_m p"
    by (cases "impl_handle (impl_m p)") (simp_all add: join_def join_loop_code_unchanged)
  show ?thesis
    unfolding exit_code_def
    using j
    by (simp add: process_init_def raw_def process_copy_def name_def binary_def cwd_def flags_def
        env_def stdout_level_def stdout_filter_def stderr_level_def stderr_filter_def arg_def
        arg2_def add_arg_def interrupt_def)
qed

theorem exit_code_zero_until_exit_witness:
  "exit_code (tool noflags) = 0
   \<and> exit_code (started noflags) = 0
   \<and> exit_code (fst (snd (run dry_conf spawn_ok (tool noflags) w_start))) = 0
   \<and> exit_code (fst (snd (join live_conf [tick_timeout, tick_interrupted, tick_timeout]
                              (started noflags) w_start))) = 0"
proof -
  note i = exit_code_zero_until_exit [of "''x''" process_init "[]" "''tool.exe''" "''tool.exe''"]
  note n = exit_code_zero_until_exit [of "''x''" "binary ''tool.exe'' process_init" "[]" "''tool''"]
  note f = exit_code_zero_until_exit [where p = "name ''tool'' (binary ''tool.exe'' process_init)" and fl = noflags]
  note r = exit_code_zero_until_exit [where p = "tool noflags" and c = live_conf and io = spawn_ok and w = w_start]
  note d = exit_code_zero_until_exit [where p = "tool noflags" and c = dry_conf and io = spawn_ok and w = w_start]
  note j = exit_code_zero_until_exit [where p = "started noflags" and c = live_conf and w = w_start
       and ts = "[tick_timeout, tick_interrupted, tick_timeout]"]
  have t: "\<forall>t\<in>set [tick_timeout, tick_interrupted, tick_timeout]. t_wait t \<noteq> WAIT_OBJECT_0"
    by (simp add: sample_ticks)
  have c1: "exit_code (tool noflags) = 0"
    using i n f by (simp add: tool_def)
  have c2: "exit_code (started noflags) = 0"
    using r c1 by (simp add: started_def)
  have c3: "exit_code (fst (snd (run dry_conf spawn_ok (tool noflags) w_start))) = 0"
    using d c1 by simp
  have c4: "exit_code (fst (snd (join live_conf [tick_timeout, tick_interrupted, tick_timeout]
                              (started noflags) w_start))) = 0"
    using j t c2 by simp
  show ?thesis
    using c1 c2 c3 c4 by simp
qed

end
